theory Spec2Isabelle
  imports Main
begin

section \<open>Data model of the launch file\<close>

text \<open>
  The launch file \<^verbatim>\<open>launch/basic_state_estimator_launch.py\<close> consists of one function,
  \<^verbatim>\<open>generate_launch_description\<close>, whose body is a single \<^verbatim>\<open>return\<close> of a
  \<^verbatim>\<open>LaunchDescription\<close> built from five \<^verbatim>\<open>DeclareLaunchArgument\<close> objects and one
  \<^verbatim>\<open>Node\<close> object.

  An argument position of the launch library takes either a plain Python string or a
  substitution object. The file uses plain strings and \<^verbatim>\<open>LaunchConfiguration(name)\<close>, the
  reference to the launch argument \<^verbatim>\<open>name\<close> that is looked up only when the description is
  launched. A plain string \<^verbatim>\<open>'s'\<close> is \<open>Text ''s''\<close>.
\<close>

datatype some_substitution =
    Text string
  | LaunchConfiguration string

text \<open>\<^verbatim>\<open>DeclareLaunchArgument(name, default_value=...)\<close>; the name is the positional argument.\<close>

record declare_launch_argument =
  arg_name :: string
  default_value :: some_substitution

text \<open>
  \<^verbatim>\<open>Node(package=, executable=, name=, namespace=, parameters=, output=, emulate_tty=)\<close>.
  \<^verbatim>\<open>parameters\<close> is a Python list of dictionaries; a dictionary literal is the list of its
  key/value pairs in the order written. The field \<open>output'\<close> is the keyword argument
  \<^verbatim>\<open>output\<close>, whose name is a reserved word of the theory language.
\<close>

record node =
  package :: some_substitution
  executable :: some_substitution
  name :: some_substitution
  namespace :: some_substitution
  parameters :: "(string \<times> some_substitution) list list"
  output' :: string
  emulate_tty :: bool

datatype launch_description_entity =
    DeclareLaunchArgument declare_launch_argument
  | Node node

datatype launch_description =
  LaunchDescription (entities: "launch_description_entity list")

text \<open>The only failure of the launch machinery that matters here: a reference that cannot be resolved.\<close>

datatype launch_error = SubstitutionFailure string

section \<open>The function of the launch file\<close>

text \<open>
  A call of a Python function ends in a returned value or in a raised exception, and may
  change the state outside the function. The model of a call therefore takes the external
  state \<open>w\<close> (anything: the command line, the environment, the running processes) and gives
  the outcome together with the external state after the call. The body of
  \<^verbatim>\<open>generate_launch_description\<close> has no parameter, no \<^verbatim>\<open>raise\<close>, no branch and no
  statement other than the \<^verbatim>\<open>return\<close> of the constructed value.
\<close>

definition generate_launch_description :: "'w \<Rightarrow> (launch_error + launch_description) \<times> 'w" where
  "generate_launch_description w =
     (Inr (LaunchDescription [
        DeclareLaunchArgument \<lparr>arg_name = ''drone_id'', default_value = Text ''drone0''\<rparr>,
        DeclareLaunchArgument \<lparr>arg_name = ''odom_only'', default_value = Text ''False''\<rparr>,
        DeclareLaunchArgument \<lparr>arg_name = ''ground_truth'', default_value = Text ''False''\<rparr>,
        DeclareLaunchArgument \<lparr>arg_name = ''sensor_fusion'', default_value = Text ''False''\<rparr>,
        DeclareLaunchArgument \<lparr>arg_name = ''base_frame'', default_value = Text ''base_link''\<rparr>,
        Node \<lparr>
          package = Text ''basic_state_estimator'',
          executable = Text ''basic_state_estimator_node'',
          name = Text ''basic_state_estimator'',
          namespace = LaunchConfiguration ''drone_id'',
          parameters = [[(''odom_only'', LaunchConfiguration ''odom_only'')],
                        [(''ground_truth'', LaunchConfiguration ''ground_truth'')],
                        [(''sensor_fusion'', LaunchConfiguration ''sensor_fusion'')],
                        [(''base_frame'', LaunchConfiguration ''base_frame'')]],
          output' = ''screen'',
          emulate_tty = True
        \<rparr>
      ]), w)"

section \<open>Reading a description\<close>

text \<open>The argument declarations of a sequence of entities, in their order, and its nodes.\<close>

fun declared_arguments :: "launch_description_entity list \<Rightarrow> declare_launch_argument list" where
  "declared_arguments [] = []"
| "declared_arguments (DeclareLaunchArgument a # es) = a # declared_arguments es"
| "declared_arguments (Node n # es) = declared_arguments es"

fun nodes :: "launch_description_entity list \<Rightarrow> node list" where
  "nodes [] = []"
| "nodes (DeclareLaunchArgument a # es) = nodes es"
| "nodes (Node n # es) = n # nodes es"

text \<open>The launch-argument names a value refers to: none for a plain string.\<close>

fun referenced :: "some_substitution \<Rightarrow> string list" where
  "referenced (Text s) = []"
| "referenced (LaunchConfiguration n) = [n]"

text \<open>The keys of the parameter dictionaries of a node, in their order.\<close>

definition parameter_keys :: "node \<Rightarrow> string list" where
  "parameter_keys n = concat (map (map fst) (parameters n))"

text \<open>Every launch-argument name a node refers to, in any of its late-bindable fields.\<close>

definition node_references :: "node \<Rightarrow> string list" where
  "node_references n =
     referenced (package n) @ referenced (executable n) @ referenced (name n) @
     referenced (namespace n) @
     concat (map (\<lambda>d. concat (map (\<lambda>kv. referenced (snd kv)) d)) (parameters n))"

section \<open>Launching a description\<close>

text \<open>
  Modelled from the spec: the launch runner, which belongs to the launch library and not to
  this repository. The spec says of it that an argument's default is used when the invoking
  environment supplies no override, that the declarations populate a resolution context,
  that a late-bound value stores an argument name and is resolved in a single pass
  immediately before the process is created, and that resolving a name that no declaration
  or override has bound fails. The definitions of this section follow those sentences.
\<close>

text \<open>Modelled from the spec: the process the runner creates, every field resolved.\<close>

record process =
  p_package :: string
  p_executable :: string
  p_name :: string
  p_namespace :: string
  p_parameters :: "(string \<times> string) list list"
  p_output :: string
  p_emulate_tty :: bool

text \<open>
  Modelled from the spec: the state of a launch, the resolution context (argument name to
  value, at first the command-line overrides) and the processes created so far.
\<close>

record launch_context =
  launch_configurations :: "string \<rightharpoonup> string"
  processes :: "process list"

text \<open>
  Modelled from the spec: resolving a value. A plain string is itself; a reference is the
  value the context binds to its name, and a failure when there is none.
\<close>

fun perform :: "(string \<rightharpoonup> string) \<Rightarrow> some_substitution \<Rightarrow> launch_error + string" where
  "perform cfg (Text s) = Inr s"
| "perform cfg (LaunchConfiguration n) =
     (case cfg n of None \<Rightarrow> Inl (SubstitutionFailure n) | Some v \<Rightarrow> Inr v)"

text \<open>Modelled from the spec: the first failure ends the resolution pass.\<close>

fun and_then :: "launch_error + 'a \<Rightarrow> ('a \<Rightarrow> launch_error + 'b) \<Rightarrow> launch_error + 'b" where
  "and_then (Inl e) f = Inl e"
| "and_then (Inr x) f = f x"

text \<open>Modelled from the spec: resolving one parameter dictionary, key by key.\<close>

fun perform_dict ::
  "(string \<rightharpoonup> string) \<Rightarrow> (string \<times> some_substitution) list \<Rightarrow> launch_error + (string \<times> string) list" where
  "perform_dict cfg [] = Inr []"
| "perform_dict cfg ((k, v) # kvs) =
     and_then (perform cfg v) (\<lambda>s.
     and_then (perform_dict cfg kvs) (\<lambda>r. Inr ((k, s) # r)))"

text \<open>Modelled from the spec: resolving the sequence of parameter dictionaries, in order.\<close>

fun perform_parameters ::
  "(string \<rightharpoonup> string) \<Rightarrow> (string \<times> some_substitution) list list \<Rightarrow>
   launch_error + (string \<times> string) list list" where
  "perform_parameters cfg [] = Inr []"
| "perform_parameters cfg (d # ds) =
     and_then (perform_dict cfg d) (\<lambda>r.
     and_then (perform_parameters cfg ds) (\<lambda>rs. Inr (r # rs)))"

text \<open>
  Modelled from the spec: the runner's step on one entity. A declaration binds the
  argument to its default unless the context binds it already; a node is resolved in the
  context reached so far and its process is created.
\<close>

fun execute :: "launch_context \<Rightarrow> launch_description_entity \<Rightarrow> launch_error + launch_context" where
  "execute ctx (DeclareLaunchArgument a) =
     (case launch_configurations ctx (arg_name a) of
        Some v \<Rightarrow> Inr ctx
      | None \<Rightarrow>
          and_then (perform (launch_configurations ctx) (default_value a)) (\<lambda>v.
          Inr (ctx\<lparr>launch_configurations := (launch_configurations ctx)(arg_name a \<mapsto> v)\<rparr>)))"
| "execute ctx (Node n) =
     and_then (perform (launch_configurations ctx) (package n)) (\<lambda>pk.
     and_then (perform (launch_configurations ctx) (executable n)) (\<lambda>ex.
     and_then (perform (launch_configurations ctx) (name n)) (\<lambda>nm.
     and_then (perform (launch_configurations ctx) (namespace n)) (\<lambda>ns.
     and_then (perform_parameters (launch_configurations ctx) (parameters n)) (\<lambda>ps.
     Inr (ctx\<lparr>processes := processes ctx @
            [\<lparr>p_package = pk, p_executable = ex, p_name = nm, p_namespace = ns,
              p_parameters = ps, p_output = output' n, p_emulate_tty = emulate_tty n\<rparr>]\<rparr>))))))"

text \<open>Modelled from the spec: the entities are visited in their order.\<close>

fun visit_all :: "launch_context \<Rightarrow> launch_description_entity list \<Rightarrow> launch_error + launch_context" where
  "visit_all ctx [] = Inr ctx"
| "visit_all ctx (e # es) = and_then (execute ctx e) (\<lambda>ctx'. visit_all ctx' es)"

text \<open>
  Modelled from the spec: one launch session. The runner starts from the command-line
  overrides \<open>ov\<close> and no process, calls the builder once, visits what it returned, and
  ends with the processes created.
\<close>

definition launch :: "(string \<rightharpoonup> string) \<Rightarrow> launch_error + process list" where
  "launch ov =
     (case generate_launch_description \<lparr>launch_configurations = ov, processes = []\<rparr> of
        (Inl e, ctx) \<Rightarrow> Inl e
      | (Inr d, ctx) \<Rightarrow> and_then (visit_all ctx (entities d)) (\<lambda>ctx'. Inr (processes ctx')))"

section \<open>The description that is returned\<close>

text \<open>
  Claim C1. Every call of \<^verbatim>\<open>generate_launch_description\<close> returns a sequence of exactly
  six entities: five launch-argument declarations followed by one node record. The declared
  names are \<^verbatim>\<open>drone_id\<close>, \<^verbatim>\<open>odom_only\<close>, \<^verbatim>\<open>ground_truth\<close>, \<^verbatim>\<open>sensor_fusion\<close>,
  \<^verbatim>\<open>base_frame\<close>, in that order, each exactly once.
\<close>

theorem five_declarations_then_one_node:
  "\<exists>a1 a2 a3 a4 a5 n.
     fst (generate_launch_description w) =
       Inr (LaunchDescription
             [DeclareLaunchArgument a1, DeclareLaunchArgument a2, DeclareLaunchArgument a3,
              DeclareLaunchArgument a4, DeclareLaunchArgument a5, Node n]) \<and>
     map arg_name [a1, a2, a3, a4, a5] =
       [''drone_id'', ''odom_only'', ''ground_truth'', ''sensor_fusion'', ''base_frame''] \<and>
     distinct (map arg_name [a1, a2, a3, a4, a5])"
  by (simp add: generate_launch_description_def)

section \<open>What a launch of the returned description creates\<close>

lemma declare_text_default:
  "execute ctx (DeclareLaunchArgument \<lparr>arg_name = a, default_value = Text d\<rparr>) =
     Inr (ctx\<lparr>launch_configurations :=
            (launch_configurations ctx)(a \<mapsto> (case launch_configurations ctx a of
                                                None \<Rightarrow> d | Some v \<Rightarrow> v))\<rparr>)"
  by (cases "launch_configurations ctx a") (simp_all add: map_upd_triv)

lemma launch_result:
  "launch ov = Inr
     [\<lparr>p_package = ''basic_state_estimator'',
       p_executable = ''basic_state_estimator_node'',
       p_name = ''basic_state_estimator'',
       p_namespace = (case ov ''drone_id'' of None \<Rightarrow> ''drone0'' | Some v \<Rightarrow> v),
       p_parameters =
         [[(''odom_only'', case ov ''odom_only'' of None \<Rightarrow> ''False'' | Some v \<Rightarrow> v)],
          [(''ground_truth'', case ov ''ground_truth'' of None \<Rightarrow> ''False'' | Some v \<Rightarrow> v)],
          [(''sensor_fusion'', case ov ''sensor_fusion'' of None \<Rightarrow> ''False'' | Some v \<Rightarrow> v)],
          [(''base_frame'', case ov ''base_frame'' of None \<Rightarrow> ''base_link'' | Some v \<Rightarrow> v)]],
       p_output = ''screen'',
       p_emulate_tty = True\<rparr>]"
  unfolding launch_def generate_launch_description_def
  by (simp add: declare_text_default del: execute.simps(1))

text \<open>
  Claim C2. The node record's \<^verbatim>\<open>parameters\<close> sequence has exactly four entries. Each is a
  dictionary with a single key, one of \<^verbatim>\<open>odom_only\<close>, \<^verbatim>\<open>ground_truth\<close>,
  \<^verbatim>\<open>sensor_fusion\<close>, \<^verbatim>\<open>base_frame\<close>, whose value is the reference to the launch argument
  of the same name. Under the runner of the previous section a launch with the overrides
  \<open>ov\<close> creates one process whose parameter for each key is the override of that argument
  when there is one and the declared default otherwise.
\<close>

theorem parameters_late_bound:
  "\<exists>d n p.
     fst (generate_launch_description w) = Inr d \<and>
     nodes (entities d) = [n] \<and>
     length (parameters n) = 4 \<and>
     list_all
       (\<lambda>e. case e of
               [(k, v)] \<Rightarrow>
                 k \<in> set [''odom_only'', ''ground_truth'', ''sensor_fusion'', ''base_frame''] \<and>
                 v = LaunchConfiguration k
             | _ \<Rightarrow> False)
       (parameters n) \<and>
     launch ov = Inr [p] \<and>
     p_parameters p =
       [[(''odom_only'', case ov ''odom_only'' of None \<Rightarrow> ''False'' | Some v \<Rightarrow> v)],
        [(''ground_truth'', case ov ''ground_truth'' of None \<Rightarrow> ''False'' | Some v \<Rightarrow> v)],
        [(''sensor_fusion'', case ov ''sensor_fusion'' of None \<Rightarrow> ''False'' | Some v \<Rightarrow> v)],
        [(''base_frame'', case ov ''base_frame'' of None \<Rightarrow> ''base_link'' | Some v \<Rightarrow> v)]]"
  by (simp add: generate_launch_description_def launch_result)

text \<open>
  The example of the claim: a launch with the single override \<^verbatim>\<open>ground_truth=True\<close>
  gives the process the parameter \<^verbatim>\<open>ground_truth\<close> with the value \<^verbatim>\<open>True\<close>, and the
  defaults for the other three.
\<close>

theorem parameters_late_bound_ground_truth_true:
  "\<exists>p. launch [''ground_truth'' \<mapsto> ''True''] = Inr [p] \<and>
       p_parameters p =
         [[(''odom_only'', ''False'')], [(''ground_truth'', ''True'')],
          [(''sensor_fusion'', ''False'')], [(''base_frame'', ''base_link'')]]"
  using parameters_late_bound [of "()" "[''ground_truth'' \<mapsto> ''True'']"]
  by auto

text \<open>
  Claim C3. For every call, whatever the external state and the overrides in it, the
  node record has package \<^verbatim>\<open>basic_state_estimator\<close>, executable
  \<^verbatim>\<open>basic_state_estimator_node\<close>, instance name \<^verbatim>\<open>basic_state_estimator\<close>, output
  \<^verbatim>\<open>screen\<close> and terminal emulation switched on; all are plain values, not references.
\<close>

theorem node_identity_fixed:
  "\<exists>d n.
     fst (generate_launch_description w) = Inr d \<and>
     nodes (entities d) = [n] \<and>
     package n = Text ''basic_state_estimator'' \<and>
     executable n = Text ''basic_state_estimator_node'' \<and>
     name n = Text ''basic_state_estimator'' \<and>
     output' n = ''screen'' \<and>
     emulate_tty n = True"
  by (simp add: generate_launch_description_def)

text \<open>
  Claim C4. The five declared launch arguments carry the literal defaults
  \<^verbatim>\<open>drone_id\<close> to \<^verbatim>\<open>drone0\<close>, \<^verbatim>\<open>odom_only\<close> to \<^verbatim>\<open>False\<close>, \<^verbatim>\<open>ground_truth\<close> to
  \<^verbatim>\<open>False\<close>, \<^verbatim>\<open>sensor_fusion\<close> to \<^verbatim>\<open>False\<close>, \<^verbatim>\<open>base_frame\<close> to \<^verbatim>\<open>base_link\<close>.
\<close>

theorem default_values_literal:
  "\<exists>d.
     fst (generate_launch_description w) = Inr d \<and>
     map (\<lambda>a. (arg_name a, default_value a)) (declared_arguments (entities d)) =
       [(''drone_id'', Text ''drone0''),
        (''odom_only'', Text ''False''),
        (''ground_truth'', Text ''False''),
        (''sensor_fusion'', Text ''False''),
        (''base_frame'', Text ''base_link'')]"
  by (simp add: generate_launch_description_def)

text \<open>
  Claim C5. The namespace of the node record is not a plain string but the reference to
  the launch argument \<^verbatim>\<open>drone_id\<close>. In any resolution context it resolves to what the
  context binds to \<^verbatim>\<open>drone_id\<close>, and a launch with the overrides \<open>ov\<close> creates one
  process whose namespace is the override of \<^verbatim>\<open>drone_id\<close> when there is one and the
  default \<^verbatim>\<open>drone0\<close> otherwise.
\<close>

theorem namespace_late_bound:
  "\<exists>d n p.
     fst (generate_launch_description w) = Inr d \<and>
     nodes (entities d) = [n] \<and>
     namespace n = LaunchConfiguration ''drone_id'' \<and>
     (\<forall>s. namespace n \<noteq> Text s) \<and>
     perform cfg (namespace n) =
       (case cfg ''drone_id'' of
          None \<Rightarrow> Inl (SubstitutionFailure ''drone_id'') | Some v \<Rightarrow> Inr v) \<and>
     launch ov = Inr [p] \<and>
     p_namespace p = (case ov ''drone_id'' of None \<Rightarrow> ''drone0'' | Some v \<Rightarrow> v)"
  by (simp add: generate_launch_description_def launch_result)

text \<open>
  The same at concrete overrides: with \<^verbatim>\<open>drone_id=drone7\<close> on the command line the
  process runs in the namespace \<^verbatim>\<open>drone7\<close>.
\<close>

theorem namespace_late_bound_drone7:
  "\<exists>p. launch [''drone_id'' \<mapsto> ''drone7''] = Inr [p] \<and> p_namespace p = ''drone7''"
  using namespace_late_bound [of "()" "Map.empty" "[''drone_id'' \<mapsto> ''drone7'']"]
  by auto

text \<open>
  Claim C6. Every launch-argument name that a late-bound value of the returned
  description refers to (the namespace and the values of the four parameter entries) is
  the name of an argument declaration of that same description. The names referred to are
  \<^verbatim>\<open>drone_id\<close>, \<^verbatim>\<open>odom_only\<close>, \<^verbatim>\<open>ground_truth\<close>, \<^verbatim>\<open>sensor_fusion\<close>, \<^verbatim>\<open>base_frame\<close>.
\<close>

theorem references_are_declared:
  "\<exists>d.
     fst (generate_launch_description w) = Inr d \<and>
     concat (map node_references (nodes (entities d))) =
       [''drone_id'', ''odom_only'', ''ground_truth'', ''sensor_fusion'', ''base_frame''] \<and>
     set (concat (map node_references (nodes (entities d)))) \<subseteq>
       set (map arg_name (declared_arguments (entities d)))"
  by (simp add: generate_launch_description_def node_references_def)

text \<open>
  Claim C7. Two calls of \<^verbatim>\<open>generate_launch_description\<close> give the same outcome, whatever
  the external states \<open>w\<close> and \<open>w'\<close> in which they are made: the function takes no input
  and its result depends on nothing outside it.
\<close>

theorem same_description_every_call:
  "fst (generate_launch_description w) = fst (generate_launch_description w')"
  by (simp add: generate_launch_description_def)

text \<open>
  Claim C8. \<^verbatim>\<open>generate_launch_description\<close> never raises: in every external state the
  call returns a description, and no error is its outcome.
\<close>

theorem never_raises:
  "(\<exists>d. fst (generate_launch_description w) = Inr d) \<and>
   (\<forall>e. fst (generate_launch_description w) \<noteq> Inl e)"
  by (simp add: generate_launch_description_def)

text \<open>
  Claim C9. \<^verbatim>\<open>generate_launch_description\<close> has no side effect: the external state after
  the call is the external state before it, whatever that state comprises (the running
  processes among it: the call starts none).
\<close>

theorem no_side_effects:
  "snd (generate_launch_description w) = w"
  by (simp add: generate_launch_description_def)

text \<open>
  Claim C10. The keys of the four parameter entries of the node record are, in this
  order, \<^verbatim>\<open>odom_only\<close>, \<^verbatim>\<open>ground_truth\<close>, \<^verbatim>\<open>sensor_fusion\<close>, \<^verbatim>\<open>base_frame\<close>, in every
  returned description, and \<^verbatim>\<open>drone_id\<close> is not a parameter key.
\<close>

theorem parameter_order_fixed:
  "\<exists>d n.
     fst (generate_launch_description w) = Inr d \<and>
     nodes (entities d) = [n] \<and>
     map (map fst) (parameters n) =
       [[''odom_only''], [''ground_truth''], [''sensor_fusion''], [''base_frame'']] \<and>
     parameter_keys n = [''odom_only'', ''ground_truth'', ''sensor_fusion'', ''base_frame''] \<and>
     ''drone_id'' \<notin> set (parameter_keys n)"
  by (simp add: generate_launch_description_def parameter_keys_def)

end
